theory Spec2Isabelle
  imports Main "HOL-Library.Sublist"
begin

section \<open>Go standard-library string functions used by debugAPK.go\<close>

text \<open>
  A Go string is a sequence of bytes; it is modelled as a \<open>string\<close> (a list of 8-bit
  \<open>char\<close>s). The functions below are the library functions that \<open>debugAPK.go\<close> calls,
  with the behaviour the Go documentation gives them.
\<close>

text \<open>
  \<open>strings.ReplaceAll(s, old, new)\<close>: every non-overlapping occurrence of \<open>old\<close>, found
  from left to right, is replaced by \<open>new\<close>. The argument \<open>old\<close> is an ordinary string,
  compared byte by byte. Both call sites of the program pass a non-empty constant for
  \<open>old\<close>; Go's special treatment of an empty \<open>old\<close> is not modelled (an empty \<open>old\<close>
  leaves \<open>s\<close> as it is here).
\<close>

function ReplaceAll :: "string \<Rightarrow> string \<Rightarrow> string \<Rightarrow> string" where
  "ReplaceAll [] old new = []"
| "ReplaceAll (c # cs) old new =
     (if old \<noteq> [] \<and> prefix old (c # cs)
      then new @ ReplaceAll (drop (length old) (c # cs)) old new
      else c # ReplaceAll cs old new)"
  by pat_completeness auto
termination
  by (relation "measure (\<lambda>(s, old, new). length s)") auto

text \<open>\<open>strings.TrimSuffix(s, suffix)\<close>: \<open>s\<close> without the trailing \<open>suffix\<close>, or \<open>s\<close> itself.\<close>

definition TrimSuffix :: "string \<Rightarrow> string \<Rightarrow> string" where
  "TrimSuffix s suf = (if suffix suf s then take (length s - length suf) s else s)"

text \<open>
  \<open>filepath.Ext(path)\<close> walks from the last byte towards the first, stops at a path
  separator (\<open>/\<close>; the model is the Unix one) and returns the text from the first dot it
  meets, or the empty string.
\<close>

fun Ext_loop :: "string \<Rightarrow> string \<Rightarrow> string" where
  "Ext_loop [] acc = []"
| "Ext_loop (c # r) acc =
     (if c = CHR ''/'' then []
      else if c = CHR ''.'' then c # acc
      else Ext_loop r (c # acc))"

definition Ext :: "string \<Rightarrow> string" where
  "Ext path = Ext_loop (rev path) []"

text \<open>
  \<open>strings.Fields(s)\<close> splits \<open>s\<close> around runs of white space as \<open>unicode.IsSpace\<close>
  defines it: the six ASCII space characters, and the code points U+0085, U+00A0, U+1680,
  U+2000 to U+200A, U+2028, U+2029, U+202F, U+205F and U+3000, which appear in the byte
  string in their UTF-8 encoding. \<open>space_width s\<close> is the number of bytes of the white-space
  character at the head of \<open>s\<close>, and 0 when \<open>s\<close> does not start with one.
\<close>

definition asciiSpace :: "char \<Rightarrow> bool" where
  "asciiSpace c \<longleftrightarrow> c \<in> {CHR 0x09, CHR 0x0A, CHR 0x0B, CHR 0x0C, CHR 0x0D, CHR 0x20}"

definition space_width :: "string \<Rightarrow> nat" where
  "space_width s =
     (case s of
        [] \<Rightarrow> 0
      | a # r \<Rightarrow>
          if asciiSpace a then 1
          else if a = CHR 0xC2 \<and> (take 1 r = [CHR 0x85] \<or> take 1 r = [CHR 0xA0]) then 2
          else if a = CHR 0xE1 \<and> take 2 r = [CHR 0x9A, CHR 0x80] then 3
          else if a = CHR 0xE2 \<and> take 1 r = [CHR 0x80] \<and>
                  (case drop 1 r of [] \<Rightarrow> False
                   | b # _ \<Rightarrow> of_char b \<in> {0x80 .. (0x8A::nat)} \<or>
                       b \<in> {CHR 0xA8, CHR 0xA9, CHR 0xAF}) then 3
          else if a = CHR 0xE2 \<and> take 2 r = [CHR 0x81, CHR 0x9F] then 3
          else if a = CHR 0xE3 \<and> take 2 r = [CHR 0x80, CHR 0x80] then 3
          else 0)"

function Fields_loop :: "string \<Rightarrow> string \<Rightarrow> string list" where
  "Fields_loop cur [] = (if cur = [] then [] else [rev cur])"
| "Fields_loop cur (c # cs) =
     (if 0 < space_width (c # cs)
      then (if cur = [] then [] else [rev cur]) @
           Fields_loop [] (drop (space_width (c # cs)) (c # cs))
      else Fields_loop (c # cur) cs)"
  by pat_completeness auto
termination
  by (relation "measure (\<lambda>(cur, s). length s)") auto

definition Fields :: "string \<Rightarrow> string list" where
  "Fields s = Fields_loop [] s"

text \<open>
  \<open>strings.Split(s, "\n")\<close>: the pieces of \<open>s\<close> between line feeds; always at least one
  piece.
\<close>

fun Split_newline :: "string \<Rightarrow> string list" where
  "Split_newline [] = [[]]"
| "Split_newline (c # cs) =
     (if c = CHR 0x0A then [] # Split_newline cs
      else (case Split_newline cs of
              [] \<Rightarrow> [[c]]
            | l # ls \<Rightarrow> (c # l) # ls))"

text \<open>
  \<open>bufio.Scanner\<close> with its default line splitter, after the first call of \<open>Scan\<close> on a
  reader over the string \<open>input\<close>. The token is the first line without its line feed and
  without one trailing carriage return. When the first 65536 bytes hold no line feed and
  the input is not shorter than that, the scanner gives up: the token stays empty and
  \<open>Err\<close> reports \<open>ErrTooLong\<close>. When the input is empty the token is empty as well
  (\<open>Scan\<close> returns false, which the program ignores).
\<close>

type_synonym error = string

record Scanner =
  Text :: string
  Err :: "error option"

definition MaxScanTokenSize :: nat where
  "MaxScanTokenSize = 64 * 1024"

definition dropCR :: "string \<Rightarrow> string" where
  "dropCR s = (if s \<noteq> [] \<and> last s = CHR 0x0D then butlast s else s)"

definition Scan :: "string \<Rightarrow> Scanner" where
  "Scan input =
     (let line = takeWhile (\<lambda>c. c \<noteq> CHR 0x0A) input
      in if MaxScanTokenSize \<le> length line
         then \<lparr>Text = [], Err = Some ''bufio.Scanner: token too long''\<rparr>
         else \<lparr>Text = dropCR line, Err = None\<rparr>)"

section \<open>The world the program runs in\<close>

text \<open>
  The file system maps a path to what is there. Paths are compared as the program writes
  them (no symbolic links, no second spelling of the same file).
\<close>

datatype node = Dir | File string

type_synonym filesystem = "string \<rightharpoonup> node"

text \<open>
  What the program does to the outside, in order: what it prints, the external processes
  it launches, and its changes to the file system.
\<close>

datatype event =
    Println "string list"
  | Printf string
  | LogFatal "string list"
  | Exec string "string list"
  | MkTemp string
  | Write string string
  | Remove string

record world =
  fs :: filesystem
  trace :: "event list"

definition emit :: "event \<Rightarrow> world \<Rightarrow> world" where
  "emit e w = w\<lparr>trace := trace w @ [e]\<rparr>"

text \<open>
  An external process that has run: the error of \<open>cmd.Run\<close> (a launch failure or a
  nonzero exit status), what it wrote on its two output streams, and the file system it
  left behind.
\<close>

record proc =
  exit_err :: "error option"
  stdout :: string
  stderr :: string
  fs_after :: filesystem

text \<open>
  Everything the program does not decide itself: its arguments, what each external tool
  does when launched, whether a tool is found on the search path, the name of the fresh
  temporary directory (or the error of creating it), and the error, if any, of writing a
  file.
\<close>

record env =
  Args :: "string list"
  run :: "string \<Rightarrow> string list \<Rightarrow> filesystem \<Rightarrow> proc"
  LookPath :: "string \<Rightarrow> error option"
  TempDir :: "error + string"
  write_fault :: "string \<Rightarrow> error option"

text \<open>
  How \<open>main\<close> ends. A normal return and a panic run the deferred calls; \<open>log.Fatal\<close>
  prints and calls \<open>os.Exit(1)\<close>, which ends the process at once, without them.
\<close>

datatype halt = Returned | Exited nat | Panicked

fun exit_status :: "halt \<Rightarrow> nat" where
  "exit_status Returned = 0"
| "exit_status (Exited n) = n"
| "exit_status Panicked = 2"

datatype 'a go = Value 'a | Panic

definition Stat :: "filesystem \<Rightarrow> string \<Rightarrow> error option" where
  "Stat f p = (case f p of None \<Rightarrow> Some ''no such file or directory'' | Some _ \<Rightarrow> None)"

definition ReadFile :: "filesystem \<Rightarrow> string \<Rightarrow> error + string" where
  "ReadFile f p =
     (case f p of
        None \<Rightarrow> Inl ''no such file or directory''
      | Some Dir \<Rightarrow> Inl ''is a directory''
      | Some (File data) \<Rightarrow> Inr data)"

definition WriteFile :: "env \<Rightarrow> string \<Rightarrow> string \<Rightarrow> world \<Rightarrow> error option \<times> world" where
  "WriteFile e p data w =
     (case write_fault e p of
        Some er \<Rightarrow> (Some er, w)
      | None \<Rightarrow> (None, emit (Write p data) (w\<lparr>fs := (fs w)(p \<mapsto> File data)\<rparr>)))"

definition RemoveAll :: "string \<Rightarrow> world \<Rightarrow> world" where
  "RemoveAll p w =
     emit (Remove p)
       (w\<lparr>fs := (\<lambda>q. if q = p \<or> prefix (p @ ''/'') q then None else fs w q)\<rparr>)"

text \<open>
  \<open>filepath.Join\<close> on the paths the program builds: the elements with a separator between
  them. (\<open>Join\<close> also cleans the result; the directory that \<open>TempDir\<close> returns is taken to
  be clean already, and \<open>filepath.Join(".", "apktool_2.5.0.jar")\<close> cleans to the bare
  file name.)
\<close>

fun Join :: "string list \<Rightarrow> string" where
  "Join [] = []"
| "Join [p] = p"
| "Join (p # q # ps) = p @ ''/'' @ Join (q # ps)"

definition apktoolJar :: string where
  "apktoolJar = ''apktool_2.5.0.jar''"

definition requiredVersion :: string where
  "requiredVersion = ''2.5.0''"

section \<open>The functions of debugAPK.go\<close>

subsection \<open>processCMD (lines 122 to 136)\<close>

definition launch :: "env \<Rightarrow> string \<Rightarrow> string list \<Rightarrow> world \<Rightarrow> proc \<times> world" where
  "launch e name args w =
     (let p = run e name args (fs w)
      in (p, emit (Exec name args) (w\<lparr>fs := fs_after p\<rparr>)))"

definition processCMD ::
  "env \<Rightarrow> string \<Rightarrow> string list \<Rightarrow> bool \<Rightarrow> world \<Rightarrow> error option \<times> world" where
  "processCMD e name args debugFlag w =
     (case launch e name args w of (p, w1) \<Rightarrow>
        (case exit_err p of
           Some er \<Rightarrow>
             (Some er,
              if debugFlag
              then emit (Println [''Command error:\<newline>'', stderr p])
                     (emit (Println [''Command output:\<newline>'', stdout p]) w1)
              else w1)
         | None \<Rightarrow> (None, w1)))"

subsection \<open>getInstalledVersion (lines 138 to 149)\<close>

text \<open>
  \<open>strings.Fields(scanner.Text())[0]\<close> indexes the first field without looking at the
  number of fields: with no field, the Go runtime panics (index out of range).
\<close>

definition getInstalledVersion ::
  "env \<Rightarrow> string \<Rightarrow> world \<Rightarrow> (string \<times> error option) go \<times> world" where
  "getInstalledVersion e apktool w =
     (case launch e apktool [''--version''] w of (p, w1) \<Rightarrow>
        (case exit_err p of
           Some er \<Rightarrow> (Value ([], Some er), w1)
         | None \<Rightarrow>
             (let scanner = Scan (stdout p)
              in case Fields (Text scanner) of
                   [] \<Rightarrow> (Panic, w1)
                 | version # _ \<Rightarrow> (Value (version, Err scanner), w1))))"

subsection \<open>addDebuggableFlag (lines 151 to 165)\<close>

text \<open>Lines 157 to 159: the new text of the manifest.\<close>

definition debuggable_pattern :: string where
  "debuggable_pattern = ''android:debuggable=\"[^\"]*\" *''"

definition addDebuggableFlag_content :: "string \<Rightarrow> string" where
  "addDebuggableFlag_content data =
     (let content = data;
          content = ReplaceAll content debuggable_pattern '''';
          content = ReplaceAll content ''<application ''
                      ''<application android:debuggable=\"true\" ''
      in content)"

definition addDebuggableFlag :: "env \<Rightarrow> string \<Rightarrow> world \<Rightarrow> error option \<times> world" where
  "addDebuggableFlag e manifestPath w =
     (case ReadFile (fs w) manifestPath of
        Inl er \<Rightarrow> (Some er, w)
      | Inr data \<Rightarrow>
          (case WriteFile e manifestPath (addDebuggableFlag_content data) w of
             (Some er, w1) \<Rightarrow> (Some er, w1)
           | (None, w1) \<Rightarrow> (None, w1)))"

subsection \<open>generateKeyStore (lines 167 to 182)\<close>

definition generateKeyStore :: "env \<Rightarrow> string \<Rightarrow> bool \<Rightarrow> world \<Rightarrow> error option \<times> world" where
  "generateKeyStore e keyStorePath debugFlag w =
     (case processCMD e ''keytool''
             [''-genkey'', ''-noprompt'',
              ''-alias'', ''alias1'',
              ''-dname'', ''CN=Unknown, OU=Unknown, O=Unknown, L=Unknown, S=Unknown, C=Unknown'',
              ''-keystore'', keyStorePath,
              ''-keyalg'', ''RSA'',
              ''-storepass'', ''password'',
              ''-keypass'', ''password''] debugFlag w of
        (Some er, w1) \<Rightarrow> (Some er, w1)
      | (None, w1) \<Rightarrow> (None, w1))"

subsection \<open>verifyAPK (lines 184 to 204)\<close>

definition verifyAPK :: "env \<Rightarrow> string \<Rightarrow> world \<Rightarrow> error option \<times> world" where
  "verifyAPK e apk w =
     (case launch e ''jarsigner'' [''-verify'', apk] w of (p, w1) \<Rightarrow>
        (case exit_err p of
           Some er \<Rightarrow> (Some er, w1)
         | None \<Rightarrow>
             (None, fold (\<lambda>line. emit (Println [line])) (take 2 (Split_newline (stdout p))) w1)))"

subsection \<open>main (lines 25 to 120)\<close>

text \<open>
  The idiom \<open>if err != nil { log.Fatal(msg, err) }\<close>: on an error the message and the
  error are logged and the process exits with status 1; otherwise the run goes on.
\<close>

definition orFatal ::
  "string \<Rightarrow> error option \<times> world \<Rightarrow> (world \<Rightarrow> halt \<times> world) \<Rightarrow> halt \<times> world" where
  "orFatal msg r k =
     (case r of
        (Some er, w) \<Rightarrow> (Exited 1, emit (LogFatal [msg, er]) w)
      | (None, w) \<Rightarrow> k w)"

text \<open>Line 70: the path of the output package.\<close>

definition debugAPK :: "string \<Rightarrow> string" where
  "debugAPK apk = TrimSuffix apk (Ext apk) @ ''.debug.apk''"

text \<open>Lines 72 to 119: the test of the input path and the six stages.\<close>

definition main_pipeline ::
  "env \<Rightarrow> bool \<Rightarrow> string \<Rightarrow> string list \<Rightarrow> string \<Rightarrow> string \<Rightarrow> world \<Rightarrow> halt \<times> world" where
  "main_pipeline e debugFlag apktool apktoolArgs tmpDir apk w =
     (if Stat (fs w) apk = None then
        orFatal ''Failed to unpack APK: ''
          (processCMD e apktool
             (apktoolArgs @ [''-q'', ''d'', apk, ''-o'', Join [tmpDir, ''app'']]) debugFlag
             (emit (Println [''=> Unpacking APK...'']) w)) (\<lambda>w.
        orFatal ''Failed to add debug flag: ''
          (addDebuggableFlag e (Join [tmpDir, ''app'', ''AndroidManifest.xml''])
             (emit (Println [''=> Adding debug flag...'']) w)) (\<lambda>w.
        orFatal ''Failed to repackage APK:''
          (processCMD e apktool
             (apktoolArgs @
                [''-q'', ''b'', Join [tmpDir, ''app''], ''--use-aapt2'', ''-o'', debugAPK apk])
             debugFlag
             (emit (Println [''=> Repacking APK...'']) w)) (\<lambda>w.
        orFatal ''Failed to generate keystore: ''
          (generateKeyStore e (Join [tmpDir, ''keystore'']) debugFlag
             (emit (Println [''=> Signing APK...'']) w)) (\<lambda>w.
        orFatal ''Failed to sign APK: ''
          (processCMD e ''jarsigner''
             [''-keystore'', Join [tmpDir, ''keystore''], ''-storepass'', ''password'',
              ''-keypass'', ''password'', debugAPK apk, ''alias1'']
             debugFlag w) (\<lambda>w.
        orFatal ''Failed to verify debug APK: ''
          (verifyAPK e (debugAPK apk)
             (emit (Println [''=> Checking your debug APK...'']) w)) (\<lambda>w.
        (Returned,
         emit (Println [''Your debug APK: '', debugAPK apk])
           (emit (Println [''(deleting temporary directory...)''])
             (emit (Println [''======''])
               (emit (Println [''Success!''])
                 (emit (Println [''\<newline>======'']) w)))))))))))
      else (Returned, emit (Println [''File not found: '', apk]) w))"

text \<open>
  Lines 56 to 68, and the deferred call of line 68 around the rest of \<open>main\<close>: it runs
  when \<open>main\<close> returns (or panics), and does not run when the process exits through
  \<open>log.Fatal\<close>.
\<close>

definition main_workspace ::
  "env \<Rightarrow> bool \<Rightarrow> string \<Rightarrow> string list \<Rightarrow> string \<Rightarrow> world \<Rightarrow> halt \<times> world" where
  "main_workspace e debugFlag apktool apktoolArgs apk w =
     (if LookPath e ''keytool'' \<noteq> None then
        (Exited 1, emit (LogFatal [''I require keytool but it's not installed. Aborting.'']) w)
      else if LookPath e ''jarsigner'' \<noteq> None then
        (Exited 1, emit (LogFatal [''I require jarsigner but it's not installed. Aborting.'']) w)
      else
        (case TempDir e of
           Inl er \<Rightarrow> (Exited 1, emit (LogFatal [''Failed to create temporary directory:'', er]) w)
         | Inr tmpDir \<Rightarrow>
             (case main_pipeline e debugFlag apktool apktoolArgs tmpDir apk
                     (emit (MkTemp tmpDir) (w\<lparr>fs := (fs w)(tmpDir \<mapsto> Dir)\<rparr>)) of
                (Exited n, w1) \<Rightarrow> (Exited n, w1)
              | (h, w1) \<Rightarrow> (h, RemoveAll tmpDir w1))))"

definition mismatch_message :: "string \<Rightarrow> string" where
  "mismatch_message installedVersion =
     ''I require apktool version '' @ requiredVersion @ '' but found version '' @
     installedVersion @ ''. Aborting.\<newline>''"

text \<open>
  Lines 26 to 54. \<open>os.Args\<close> is the argument vector of the process; should it be empty,
  \<open>os.Args[1]\<close> is out of range.
\<close>

definition main :: "env \<Rightarrow> filesystem \<Rightarrow> halt \<times> world" where
  "main e fs0 =
     (let w = \<lparr>fs = fs0, trace = []\<rparr>
      in case Args e of
           [] \<Rightarrow> (Panicked, w)
         | [prog] \<Rightarrow> (Returned, emit (Println [''Usage: go run main.go [APK_FILE]'']) w)
         | prog # apk # rest \<Rightarrow>
             (let debugFlag = (case rest of [] \<Rightarrow> False | a # _ \<Rightarrow> a = ''debug'')
              in case getInstalledVersion e ''apktool'' w of
                   (Panic, w1) \<Rightarrow> (Panicked, w1)
                 | (Value (installedVersion, Some er), w1) \<Rightarrow>
                     (Exited 1,
                      emit (LogFatal [''Failed to check installed apktool version: '', er]) w1)
                 | (Value (installedVersion, None), w1) \<Rightarrow>
                     if installedVersion \<noteq> requiredVersion then
                       if Stat (fs w1) apktoolJar = None then
                         main_workspace e debugFlag ''java'' ([] @ [''-jar'', apktoolJar]) apk
                           (emit (Println [''Found apktool_2.5.0.jar file in the current directory. Proceeding...'']) w1)
                       else (Returned, emit (Printf (mismatch_message installedVersion)) w1)
                     else main_workspace e debugFlag ''apktool'' [] apk w1))"

section \<open>Reading a run\<close>

text \<open>
  The events of a trace that only print, and the others: the actions of the run
  (processes launched, the workspace made and removed, files written).
\<close>

fun is_output :: "event \<Rightarrow> bool" where
  "is_output (Println ops) = True"
| "is_output (Printf s) = True"
| "is_output (LogFatal ops) = True"
| "is_output ev = False"

definition actions :: "event list \<Rightarrow> event list" where
  "actions tr = filter (\<lambda>ev. \<not> is_output ev) tr"

text \<open>
  The two lines that \<open>processCMD\<close> prints under the debug flag, and a trace without them.
\<close>

fun diagnostic :: "event \<Rightarrow> bool" where
  "diagnostic (Println ops) =
     (length ops = 2 \<and>
      (hd ops = ''Command output:\<newline>'' \<or> hd ops = ''Command error:\<newline>''))"
| "diagnostic ev = False"

definition mute :: "event list \<Rightarrow> event list" where
  "mute tr = filter (\<lambda>ev. \<not> diagnostic ev) tr"

text \<open>
  The file system after the events of a trace, from the file system \<open>f0\<close> the run started
  in: a launched process leaves the file system its run gives, the other actions change
  the one path they name, and printing changes nothing.
\<close>

fun replay_event :: "env \<Rightarrow> event \<Rightarrow> filesystem \<Rightarrow> filesystem" where
  "replay_event e (Exec name args) f = fs_after (run e name args f)"
| "replay_event e (MkTemp d) f = f(d \<mapsto> Dir)"
| "replay_event e (Write p data) f = f(p \<mapsto> File data)"
| "replay_event e (Remove p) f = (\<lambda>q. if q = p \<or> prefix (p @ ''/'') q then None else f q)"
| "replay_event e ev f = f"

definition replay :: "env \<Rightarrow> event list \<Rightarrow> filesystem \<Rightarrow> filesystem" where
  "replay e tr f0 = fold (replay_event e) tr f0"

text \<open>
  The two diagnostic lines for a process that has run: its captured standard output and
  its captured standard error.
\<close>

definition diagnostics :: "proc \<Rightarrow> event list" where
  "diagnostics p =
     [Println [''Command output:\<newline>'', stdout p], Println [''Command error:\<newline>'', stderr p]]"

text \<open>
  A world reached without a diagnostic line, whose file system is the one its trace
  gives. Two results, of a run with the debug flag and of the same run without it, are
  paired when they are the same result in such a world, or when they part at a failed
  command: the same trace up to the launch of the command, then the two diagnostic
  lines in the run with the flag only, then the fatal message, and nothing after it.
\<close>

definition sound :: "env \<Rightarrow> filesystem \<Rightarrow> world \<Rightarrow> bool" where
  "sound e f0 w \<longleftrightarrow>
     fs w = replay e (trace w) f0 \<and> (\<forall>ev \<in> set (trace w). \<not> diagnostic ev)"

definition parted :: "env \<Rightarrow> filesystem \<Rightarrow> halt \<times> world \<Rightarrow> halt \<times> world \<Rightarrow> bool" where
  "parted e f0 rd rp \<longleftrightarrow>
     (\<exists>pre name args msg er.
        exit_err (run e name args (replay e pre f0)) = Some er \<and>
        (\<forall>ev \<in> set pre. \<not> diagnostic ev) \<and>
        rp = (Exited 1,
              \<lparr>fs = fs_after (run e name args (replay e pre f0)),
               trace = pre @ [Exec name args, LogFatal [msg, er]]\<rparr>) \<and>
        rd = (Exited 1,
              \<lparr>fs = fs_after (run e name args (replay e pre f0)),
               trace = pre @ [Exec name args] @
                       diagnostics (run e name args (replay e pre f0)) @
                       [LogFatal [msg, er]]\<rparr>))"

definition paired :: "env \<Rightarrow> filesystem \<Rightarrow> halt \<times> world \<Rightarrow> halt \<times> world \<Rightarrow> bool" where
  "paired e f0 rd rp \<longleftrightarrow> (rd = rp \<and> sound e f0 (snd rp)) \<or> parted e f0 rd rp"

section \<open>Sample runs\<close>

text \<open>
  External tools for the examples: the version query prints \<open>versionOutput\<close>; a command
  whose arguments contain the word \<open>failing\<close> exits with status 1; unpacking leaves a
  manifest in the workspace, repacking leaves the output package, key generation leaves
  the key store, and verification prints its report.
\<close>

definition done_proc :: "filesystem \<Rightarrow> string \<Rightarrow> proc" where
  "done_proc f out = \<lparr>exit_err = None, stdout = out, stderr = [], fs_after = f\<rparr>"

definition failed_proc :: "filesystem \<Rightarrow> proc" where
  "failed_proc f =
     \<lparr>exit_err = Some ''exit status 1'', stdout = ''I: Using Apktool 2.5.0'',
      stderr = ''brut.androlib.AndrolibException'', fs_after = f\<rparr>"

definition sample_manifest :: string where
  "sample_manifest = ''<manifest><application android:label=\"a\"></application></manifest>''"

definition sample_run ::
  "string \<Rightarrow> string \<Rightarrow> string \<Rightarrow> string list \<Rightarrow> filesystem \<Rightarrow> proc" where
  "sample_run versionOutput failing name args f =
     (if args = [''--version''] then done_proc f versionOutput
      else if failing \<in> set args then failed_proc f
      else if ''d'' \<in> set args then
        done_proc (f(''/tmp/apkdebug1/app'' \<mapsto> Dir,
                     ''/tmp/apkdebug1/app/AndroidManifest.xml'' \<mapsto> File sample_manifest)) []
      else if ''b'' \<in> set args then done_proc (f(''app.debug.apk'' \<mapsto> File ''PK'')) []
      else if ''-genkey'' \<in> set args then
        done_proc (f(''/tmp/apkdebug1/keystore'' \<mapsto> File ''JKS'')) []
      else if ''-verify'' \<in> set args then
        done_proc f ''jar verified.\<newline>\<newline>Warning: \<newline>''
      else done_proc f [])"

text \<open>
  An environment for the examples: the arguments, the output of the version query, the
  word of the failing command (none fails when no command has it), and the name of a
  tool that is not on the search path.
\<close>

definition sample_env :: "string list \<Rightarrow> string \<Rightarrow> string \<Rightarrow> string \<Rightarrow> env" where
  "sample_env args versionOutput failing missing =
     \<lparr>Args = args,
      run = sample_run versionOutput failing,
      LookPath = (\<lambda>name. if name = missing then Some ''executable file not found in $PATH''
                          else None),
      TempDir = Inr ''/tmp/apkdebug1'',
      write_fault = (\<lambda>p. None)\<rparr>"

definition sample_fs :: filesystem where
  "sample_fs = [''app.apk'' \<mapsto> File ''PK'']"

lemmas run_defs =
  main_def main_workspace_def main_pipeline_def orFatal_def processCMD_def launch_def
  emit_def getInstalledVersion_def addDebuggableFlag_def generateKeyStore_def verifyAPK_def
  Scan_def MaxScanTokenSize_def dropCR_def Fields_def space_width_def asciiSpace_def
  requiredVersion_def apktoolJar_def mismatch_message_def Stat_def ReadFile_def
  WriteFile_def RemoveAll_def

lemmas sample_defs =
  sample_env_def sample_run_def sample_fs_def done_proc_def failed_proc_def
  sample_manifest_def

section \<open>Facts about the string functions\<close>

lemma ReplaceAll_absent: "\<not> sublist old s \<Longrightarrow> ReplaceAll s old new = s"
proof (induction s)
  case Nil
  show ?case by simp
next
  case (Cons c cs)
  from Cons.prems have both: "\<not> prefix old (c # cs) \<and> \<not> sublist old cs"
    by (simp only: sublist_Cons_right de_Morgan_disj simp_thms)
  then have "\<not> sublist old cs"
    by (rule conjunct2)
  then have IH: "ReplaceAll cs old new = cs"
    by (rule Cons.IH)
  have "ReplaceAll (c # cs) old new =
          (if old \<noteq> [] \<and> prefix old (c # cs)
           then new @ ReplaceAll (drop (length old) (c # cs)) old new
           else c # ReplaceAll cs old new)"
    by (rule ReplaceAll.simps(2))
  also have "\<dots> = c # ReplaceAll cs old new"
    using both by (simp only: simp_thms if_False)
  finally show ?case
    by (simp only: IH)
qed

lemma prefix_of_long_front:
  assumes "prefix xs (ys @ zs)" and "length xs \<le> length ys"
  shows "prefix xs ys"
proof -
  from assms(1) obtain r where r: "ys @ zs = xs @ r"
    by (auto simp: prefix_def)
  have "take (length xs) (ys @ zs) = take (length xs) ys"
    using assms(2) by simp
  moreover have "take (length xs) (xs @ r) = xs"
    by simp
  ultimately have "xs = take (length xs) ys"
    using r by simp
  then show ?thesis
    by (metis take_is_prefix)
qed

lemma ReplaceAll_prefix:
  assumes "old \<noteq> []"
  shows "ReplaceAll (old @ post) old new = new @ ReplaceAll post old new"
proof -
  obtain c cs where old: "old = c # cs"
    using assms by (cases old) simp_all
  have "ReplaceAll (c # (cs @ post)) old new =
          (if old \<noteq> [] \<and> prefix old (c # (cs @ post))
           then new @ ReplaceAll (drop (length old) (c # (cs @ post))) old new
           else c # ReplaceAll (cs @ post) old new)"
    by (rule ReplaceAll.simps(2))
  also have "\<dots> = new @ ReplaceAll (drop (length old) (c # (cs @ post))) old new"
    by (simp only: old) simp
  also have "drop (length old) (c # (cs @ post)) = post"
    by (simp add: old)
  finally show ?thesis
    by (simp add: old)
qed

lemma ReplaceAll_first:
  assumes "old \<noteq> []" and "\<not> sublist old (pre @ butlast old)"
  shows "ReplaceAll (pre @ old @ post) old new = pre @ new @ ReplaceAll post old new"
  using assms(2)
proof (induction pre)
  case Nil
  show ?case
    using ReplaceAll_prefix [OF assms(1)] by simp
next
  case (Cons a pre)
  have np: "\<not> prefix old (a # pre @ old @ post)"
  proof
    assume p: "prefix old (a # pre @ old @ post)"
    have split: "a # pre @ old @ post = (a # pre @ butlast old) @ (last old # post)"
      using assms(1) by simp
    have le: "length old \<le> length (a # pre @ butlast old)"
      by simp
    from p have "prefix old ((a # pre @ butlast old) @ (last old # post))"
      by (simp only: split)
    then have "prefix old (a # pre @ butlast old)"
      using le by (rule prefix_of_long_front)
    then have "sublist old ((a # pre) @ butlast old)"
      by simp
    with Cons.prems show False
      by simp
  qed
  from Cons.prems have "\<not> sublist old (pre @ butlast old)"
    by (simp add: sublist_Cons_right)
  then have IH: "ReplaceAll (pre @ old @ post) old new = pre @ new @ ReplaceAll post old new"
    by (rule Cons.IH)
  have "ReplaceAll (a # (pre @ old @ post)) old new =
          (if old \<noteq> [] \<and> prefix old (a # (pre @ old @ post))
           then new @ ReplaceAll (drop (length old) (a # (pre @ old @ post))) old new
           else a # ReplaceAll (pre @ old @ post) old new)"
    by (rule ReplaceAll.simps(2))
  also have "\<dots> = a # ReplaceAll (pre @ old @ post) old new"
    using np by (simp only: simp_thms if_False)
  finally show ?case
    by (simp only: IH append_Cons)
qed

lemma Ext_loop_skip:
  "\<forall>c \<in> set r1. c \<noteq> CHR ''/'' \<and> c \<noteq> CHR ''.'' \<Longrightarrow>
     Ext_loop (r1 @ r2) acc = Ext_loop r2 (rev r1 @ acc)"
  by (induction r1 arbitrary: acc) simp_all

lemma Ext_dotted:
  assumes "CHR ''.'' \<notin> set ext" and "CHR ''/'' \<notin> set ext"
  shows "Ext (name @ CHR ''.'' # ext) = CHR ''.'' # ext"
proof -
  have "\<forall>c \<in> set (rev ext). c \<noteq> CHR ''/'' \<and> c \<noteq> CHR ''.''"
    using assms by auto
  then have "Ext_loop (rev ext @ CHR ''.'' # rev name) [] =
             Ext_loop (CHR ''.'' # rev name) (rev (rev ext) @ [])"
    by (rule Ext_loop_skip)
  then show ?thesis by (simp add: Ext_def)
qed

lemma Ext_loop_no_dot:
  "CHR ''.'' \<notin> set (takeWhile (\<lambda>c. c \<noteq> CHR ''/'') r) \<Longrightarrow> Ext_loop r acc = []"
  by (induction r arbitrary: acc) (auto split: if_splits)

lemma TrimSuffix_append: "TrimSuffix (s @ t) t = s"
  by (simp add: TrimSuffix_def suffix_def)

lemma TrimSuffix_Nil: "TrimSuffix s [] = s"
  by (simp add: TrimSuffix_def)

section \<open>The output path\<close>

text \<open>
  C3, as the program has it. The output path is the input path without its extension,
  followed by the constant \<open>.debug.apk\<close>: a path \<open>name.ext\<close>, where \<open>ext\<close> holds neither a
  dot nor a separator, gives \<open>name.debug.apk\<close> whatever \<open>ext\<close> is, and a path whose last
  element has no dot gets \<open>.debug.apk\<close> appended.
\<close>

theorem debugAPK_extension:
  "(CHR ''.'' \<notin> set ext \<and> CHR ''/'' \<notin> set ext \<longrightarrow>
      debugAPK (name @ CHR ''.'' # ext) = name @ ''.debug.apk'') \<and>
   (CHR ''.'' \<notin> set (takeWhile (\<lambda>c. c \<noteq> CHR ''/'') (rev apk)) \<longrightarrow>
      debugAPK apk = apk @ ''.debug.apk'')"
proof (intro conjI impI)
  assume "CHR ''.'' \<notin> set ext \<and> CHR ''/'' \<notin> set ext"
  then have "Ext (name @ CHR ''.'' # ext) = CHR ''.'' # ext"
    by (simp add: Ext_dotted)
  then show "debugAPK (name @ CHR ''.'' # ext) = name @ ''.debug.apk''"
    using TrimSuffix_append [of name "CHR ''.'' # ext"] by (simp add: debugAPK_def)
next
  assume "CHR ''.'' \<notin> set (takeWhile (\<lambda>c. c \<noteq> CHR ''/'') (rev apk))"
  then have "Ext apk = []"
    by (simp add: Ext_def Ext_loop_no_dot)
  then show "debugAPK apk = apk @ ''.debug.apk''"
    by (simp add: debugAPK_def TrimSuffix_Nil)
qed

theorem debugAPK_extension_witness:
  "debugAPK ''app.zip'' = ''app.debug.apk'' \<and> debugAPK ''dir.d/app'' = ''dir.d/app.debug.apk''"
  using debugAPK_extension [of "''zip''" "''app''" "''dir.d/app''"] by simp

text \<open>
  C3 as the specification states it (the original extension is kept after the marker)
  fails for every extension other than \<open>.apk\<close>.
\<close>

theorem debugAPK_keeps_extension_counterexample:
  "Ext ''app.zip'' = ''.zip'' \<and> debugAPK ''app.zip'' = ''app.debug.apk'' \<and>
   debugAPK ''app.zip'' \<noteq> ''app'' @ ''.debug'' @ Ext ''app.zip''"
  by (simp add: debugAPK_def Ext_def TrimSuffix_def suffix_to_prefix)

section \<open>The manifest patch\<close>

lemma ReadFile_File: "f p = Some (File data) \<Longrightarrow> ReadFile f p = Inr data"
  by (simp add: ReadFile_def)

text \<open>
  The search string of line 158 starts with \<open>android:debuggable=\<close>: a text without these
  bytes holds no occurrence of it.
\<close>

lemma debuggable_pattern_absent:
  assumes "\<not> sublist ''android:debuggable='' data"
  shows "\<not> sublist debuggable_pattern data"
proof
  assume occ: "sublist debuggable_pattern data"
  have "prefix ''android:debuggable='' debuggable_pattern"
    by (simp add: debuggable_pattern_def)
  then have "sublist ''android:debuggable='' debuggable_pattern"
    by (rule prefix_imp_sublist)
  then have "sublist ''android:debuggable='' data"
    using occ by (rule sublist_order.order_trans)
  with assms show False
    by (rule notE)
qed

lemma addDebuggableFlag_content_id:
  assumes "\<not> sublist ''<application '' data" and "\<not> sublist ''android:debuggable='' data"
  shows "addDebuggableFlag_content data = data"
proof -
  have "\<not> sublist debuggable_pattern data"
    using assms(2) by (rule debuggable_pattern_absent)
  then have "ReplaceAll data debuggable_pattern '''' = data"
    by (rule ReplaceAll_absent)
  moreover have "ReplaceAll data ''<application '' ''<application android:debuggable=\"true\" '' = data"
    using assms(1) by (rule ReplaceAll_absent)
  ultimately show ?thesis
    by (simp only: addDebuggableFlag_content_def Let_def)
qed

text \<open>
  A manifest text with one token \<open><application \<close> and no \<open>android:debuggable=\<close> in it: the
  attribute is inserted directly after the token and nothing else changes.
\<close>

lemma addDebuggableFlag_content_inserts:
  assumes "\<not> sublist ''android:debuggable='' (pre @ ''<application '' @ post)"
    and "\<not> sublist ''<application '' (pre @ ''<application'')"
    and "\<not> sublist ''<application '' post"
  shows "addDebuggableFlag_content (pre @ ''<application '' @ post) =
           pre @ ''<application android:debuggable=\"true\" '' @ post"
proof -
  have "\<not> sublist debuggable_pattern (pre @ ''<application '' @ post)"
    using assms(1) by (rule debuggable_pattern_absent)
  then have 1: "ReplaceAll (pre @ ''<application '' @ post) debuggable_pattern '''' =
             pre @ ''<application '' @ post"
    by (rule ReplaceAll_absent)
  have "\<not> sublist ''<application '' (pre @ butlast ''<application '')"
    using assms(2) by simp
  then have "ReplaceAll (pre @ ''<application '' @ post) ''<application ''
               ''<application android:debuggable=\"true\" '' =
             pre @ ''<application android:debuggable=\"true\" '' @
               ReplaceAll post ''<application '' ''<application android:debuggable=\"true\" ''"
    by (intro ReplaceAll_first) simp_all
  also have "ReplaceAll post ''<application '' ''<application android:debuggable=\"true\" '' = post"
    using assms(3) by (rule ReplaceAll_absent)
  finally show ?thesis
    by (simp only: addDebuggableFlag_content_def Let_def 1)
qed

text \<open>
  C10, as the program has it. Line 158 runs before line 159 and does not look for the
  token. When the manifest text holds neither the token \<open><application \<close> nor the bytes
  \<open>android:debuggable=\<close> (no debuggable attribute to remove), neither replacement
  changes it: \<open>addDebuggableFlag\<close> does what writing the text back does, and when the
  write succeeds it returns no error and the file holds the text that was read.
\<close>

theorem addDebuggableFlag_no_token_no_attribute:
  assumes "fs w manifestPath = Some (File data)"
    and "\<not> sublist ''<application '' data"
    and "\<not> sublist ''android:debuggable='' data"
  shows "addDebuggableFlag e manifestPath w = WriteFile e manifestPath data w \<and>
         (write_fault e manifestPath = None \<longrightarrow>
            addDebuggableFlag e manifestPath w =
              (None, emit (Write manifestPath data)
                       (w\<lparr>fs := (fs w)(manifestPath \<mapsto> File data)\<rparr>)))"
proof -
  have c: "addDebuggableFlag_content data = data"
    using assms(2,3) by (rule addDebuggableFlag_content_id)
  have r: "ReadFile (fs w) manifestPath = Inr data"
    using assms(1) by (rule ReadFile_File)
  have "addDebuggableFlag e manifestPath w = WriteFile e manifestPath data w"
    by (simp add: addDebuggableFlag_def r c split: prod.split option.split)
  then show ?thesis
    by (simp add: WriteFile_def)
qed

theorem addDebuggableFlag_no_token_no_attribute_witness:
  "\<not> sublist ''<application '' ''<manifest><application/></manifest>'' \<and>
   \<not> sublist ''android:debuggable='' ''<manifest><application/></manifest>'' \<and>
   addDebuggableFlag (sample_env [] [] [] []) ''m.xml''
     \<lparr>fs = [''m.xml'' \<mapsto> File ''<manifest><application/></manifest>''], trace = []\<rparr> =
   (None,
    \<lparr>fs = [''m.xml'' \<mapsto> File ''<manifest><application/></manifest>'']
            (''m.xml'' \<mapsto> File ''<manifest><application/></manifest>''),
     trace = [Write ''m.xml'' ''<manifest><application/></manifest>'']\<rparr>)"
proof -
  let ?data = "''<manifest><application/></manifest>''"
  let ?w = "\<lparr>fs = [''m.xml'' \<mapsto> File ?data], trace = []\<rparr>"
  have h1: "fs ?w ''m.xml'' = Some (File ?data)"
    by simp
  have h2: "\<not> sublist ''<application '' ?data"
    by (simp add: sublist_code)
  have h3: "\<not> sublist ''android:debuggable='' ?data"
    by (simp add: sublist_code)
  have h4: "write_fault (sample_env [] [] [] []) ''m.xml'' = None"
    by (simp add: sample_env_def)
  have "addDebuggableFlag (sample_env [] [] [] []) ''m.xml'' ?w =
          (None, emit (Write ''m.xml'' ?data) (?w\<lparr>fs := (fs ?w)(''m.xml'' \<mapsto> File ?data)\<rparr>))"
    by (rule addDebuggableFlag_no_token_no_attribute
          [OF h1 h2 h3, of "sample_env [] [] [] []", THEN conjunct2, THEN mp, OF h4])
  then have "addDebuggableFlag (sample_env [] [] [] []) ''m.xml'' ?w =
     (None, \<lparr>fs = [''m.xml'' \<mapsto> File ?data](''m.xml'' \<mapsto> File ?data),
             trace = [Write ''m.xml'' ?data]\<rparr>)"
    by (simp add: emit_def)
  with h2 h3 show ?thesis
    by simp
qed

text \<open>
  C10 as the specification states it (no token, so the content is written back as read)
  fails on a text without the token in which line 158 finds something to delete: the
  function returns no error and the file no longer holds the text that was read.
\<close>

theorem addDebuggableFlag_no_token_counterexample:
  "\<not> sublist ''<application ''
       ''<manifest><!-- android:debuggable=\"[^\"]*\" * --><application/></manifest>'' \<and>
   fst (addDebuggableFlag (sample_env [] [] [] []) ''m.xml''
          \<lparr>fs = [''m.xml'' \<mapsto>
                   File ''<manifest><!-- android:debuggable=\"[^\"]*\" * --><application/></manifest>''],
           trace = []\<rparr>) = None \<and>
   fs (snd (addDebuggableFlag (sample_env [] [] [] []) ''m.xml''
          \<lparr>fs = [''m.xml'' \<mapsto>
                   File ''<manifest><!-- android:debuggable=\"[^\"]*\" * --><application/></manifest>''],
           trace = []\<rparr>)) ''m.xml'' \<noteq>
     Some (File ''<manifest><!-- android:debuggable=\"[^\"]*\" * --><application/></manifest>'')"
  by (simp add: sublist_code addDebuggableFlag_def ReadFile_def WriteFile_def emit_def
      sample_env_def addDebuggableFlag_content_def debuggable_pattern_def)

text \<open>
  C2 at a failing input. The search string of line 158 is a regular expression, and
  \<open>strings.ReplaceAll\<close> compares it literally: an existing \<open>android:debuggable\<close> attribute
  is not removed, and the application element ends up with two debuggable attributes.
\<close>

theorem existing_debuggable_attribute_is_kept:
  "addDebuggableFlag_content ''<application android:debuggable=\"false\" android:label=\"a\">'' =
     ''<application android:debuggable=\"true\" android:debuggable=\"false\" android:label=\"a\">''"
  by code_simp

section \<open>The version check\<close>

lemma launch_world:
  "launch e name args w =
     (run e name args (fs w),
      \<lparr>fs = fs_after (run e name args (fs w)), trace = trace w @ [Exec name args]\<rparr>)"
  by (simp add: launch_def emit_def Let_def)

lemma getInstalledVersion_world:
  "getInstalledVersion e apktool w = (r, w1) \<Longrightarrow>
     w1 = \<lparr>fs = fs_after (run e apktool [''--version''] (fs w)),
           trace = trace w @ [Exec apktool [''--version'']]\<rparr>"
  by (auto simp: getInstalledVersion_def launch_world Let_def split: option.splits list.splits)

text \<open>
  C6. When the version that \<open>getInstalledVersion\<close> reports is not \<open>2.5.0\<close> and the file
  \<open>apktool_2.5.0.jar\<close> is not there, the only action of the whole run is the version
  query (none at all when the program got no input path): no workspace is made and no
  other process is launched, and the file system stays as the version query left it.
\<close>

theorem version_mismatch_aborts_before_workspace:
  assumes "getInstalledVersion e ''apktool'' \<lparr>fs = fs0, trace = []\<rparr> =
             (Value (installedVersion, err), w1)"
    and "installedVersion \<noteq> ''2.5.0''"
    and "fs w1 ''apktool_2.5.0.jar'' = None"
  shows "actions (trace (snd (main e fs0))) =
           (if length (Args e) < 2 then [] else [Exec ''apktool'' [''--version'']]) \<and>
         (\<forall>d. MkTemp d \<notin> set (trace (snd (main e fs0)))) \<and>
         fs (snd (main e fs0)) = (if length (Args e) < 2 then fs0 else fs w1)"
proof -
  have w1: "w1 = \<lparr>fs = fs_after (run e ''apktool'' [''--version''] fs0),
                   trace = [Exec ''apktool'' [''--version'']]\<rparr>"
    using getInstalledVersion_world [OF assms(1)] by simp
  show ?thesis
  proof (cases "Args e")
    case Nil
    then show ?thesis by (simp add: main_def actions_def)
  next
    case (Cons prog r)
    show ?thesis
    proof (cases r)
      case Nil
      with Cons show ?thesis by (simp add: main_def actions_def emit_def)
    next
      case (Cons apk rest)
      with \<open>Args e = prog # r\<close> assms w1 show ?thesis
        by (cases err)
           (simp_all add: main_def actions_def emit_def requiredVersion_def apktoolJar_def
              Stat_def)
    qed
  qed
qed

theorem version_mismatch_aborts_before_workspace_witness:
  "actions (trace (snd (main (sample_env [''debugAPK'', ''app.apk''] ''2.6.0\<newline>'' [] [])
                          sample_fs))) =
     [Exec ''apktool'' [''--version'']] \<and>
   (\<forall>d. MkTemp d \<notin> set (trace (snd (main (sample_env [''debugAPK'', ''app.apk'']
                                           ''2.6.0\<newline>'' [] []) sample_fs)))) \<and>
   fs (snd (main (sample_env [''debugAPK'', ''app.apk''] ''2.6.0\<newline>'' [] []) sample_fs)) =
     sample_fs"
proof -
  have h1: "getInstalledVersion (sample_env [''debugAPK'', ''app.apk''] ''2.6.0\<newline>'' [] [])
              ''apktool'' \<lparr>fs = sample_fs, trace = []\<rparr> =
            (Value (''2.6.0'', None),
             \<lparr>fs = sample_fs, trace = [Exec ''apktool'' [''--version'']]\<rparr>)"
    by (simp add: run_defs sample_defs)
  have h2: "''2.6.0'' \<noteq> ''2.5.0''"
    by simp
  have h3: "fs \<lparr>fs = sample_fs, trace = [Exec ''apktool'' [''--version'']]\<rparr>
              ''apktool_2.5.0.jar'' = None"
    by (simp add: sample_fs_def)
  show ?thesis
    using version_mismatch_aborts_before_workspace [OF h1 h2 h3]
    by (simp add: sample_env_def)
qed

text \<open>
  C4 at a failing input. The installed tool reports version 2.6.0 and there is no
  \<open>apktool_2.5.0.jar\<close>: the program prints its report with \<open>fmt.Printf\<close> and returns from
  \<open>main\<close>, so the process ends with status 0, where the missing \<open>keytool\<close> and
  \<open>jarsigner\<close> (lines 56 to 62) end it through \<open>log.Fatal\<close> with status 1.
\<close>

theorem version_mismatch_exit_status:
  "exit_status (fst (main (sample_env [''debugAPK'', ''app.apk''] ''2.6.0\<newline>'' [] [])
                       sample_fs)) = 0 \<and>
   trace (snd (main (sample_env [''debugAPK'', ''app.apk''] ''2.6.0\<newline>'' [] []) sample_fs)) =
     [Exec ''apktool'' [''--version''],
      Printf ''I require apktool version 2.5.0 but found version 2.6.0. Aborting.\<newline>''] \<and>
   exit_status (fst (main (sample_env [''debugAPK'', ''app.apk''] ''2.5.0\<newline>'' [] ''keytool'')
                       sample_fs)) = 1"
  by (simp add: run_defs sample_defs)

section \<open>The version query\<close>

text \<open>
  C9 at a failing input. The version query succeeds and prints an empty first line:
  there is no field to index, \<open>getInstalledVersion\<close> panics, and so does \<open>main\<close>.
\<close>

theorem getInstalledVersion_empty_line:
  "fst (getInstalledVersion (sample_env [''debugAPK'', ''app.apk''] ''\<newline>'' [] [])
          ''apktool'' \<lparr>fs = sample_fs, trace = []\<rparr>) = Panic \<and>
   fst (main (sample_env [''debugAPK'', ''app.apk''] ''\<newline>'' [] []) sample_fs) = Panicked"
  by (simp add: run_defs sample_defs)

section \<open>The workspace\<close>

text \<open>
  C1 at a failing input. Unpacking fails: \<open>log.Fatal\<close> ends the process, the deferred
  \<open>os.RemoveAll\<close> never runs, and the workspace directory is still there.
\<close>

theorem workspace_left_after_failed_unpack:
  "fst (main (sample_env [''debugAPK'', ''app.apk''] ''2.5.0\<newline>'' ''d'' []) sample_fs) =
     Exited 1 \<and>
   trace (snd (main (sample_env [''debugAPK'', ''app.apk''] ''2.5.0\<newline>'' ''d'' []) sample_fs)) =
     [Exec ''apktool'' [''--version''],
      MkTemp ''/tmp/apkdebug1'',
      Println [''=> Unpacking APK...''],
      Exec ''apktool'' [''-q'', ''d'', ''app.apk'', ''-o'', ''/tmp/apkdebug1/app''],
      LogFatal [''Failed to unpack APK: '', ''exit status 1'']] \<and>
   fs (snd (main (sample_env [''debugAPK'', ''app.apk''] ''2.5.0\<newline>'' ''d'' []) sample_fs))
     ''/tmp/apkdebug1'' = Some Dir"
  by (simp add: run_defs sample_defs)

text \<open>
  C7 at a failing input. Repacking fails: the failure is reported, the process exits with
  status 1 and neither the key generator nor \<open>jarsigner\<close> is launched; but the workspace,
  with the unpacked tree in it, is still there.
\<close>

theorem workspace_left_after_failed_repack:
  "fst (main (sample_env [''debugAPK'', ''app.apk''] ''2.5.0\<newline>'' ''b'' []) sample_fs) =
     Exited 1 \<and>
   actions (trace (snd (main (sample_env [''debugAPK'', ''app.apk''] ''2.5.0\<newline>'' ''b'' [])
                          sample_fs))) =
     [Exec ''apktool'' [''--version''],
      MkTemp ''/tmp/apkdebug1'',
      Exec ''apktool'' [''-q'', ''d'', ''app.apk'', ''-o'', ''/tmp/apkdebug1/app''],
      Write ''/tmp/apkdebug1/app/AndroidManifest.xml''
        ''<manifest><application android:debuggable=\"true\" android:label=\"a\"></application></manifest>'',
      Exec ''apktool''
        [''-q'', ''b'', ''/tmp/apkdebug1/app'', ''--use-aapt2'', ''-o'', ''app.debug.apk'']] \<and>
   last (trace (snd (main (sample_env [''debugAPK'', ''app.apk''] ''2.5.0\<newline>'' ''b'' [])
                       sample_fs))) =
     LogFatal [''Failed to repackage APK:'', ''exit status 1''] \<and>
   fs (snd (main (sample_env [''debugAPK'', ''app.apk''] ''2.5.0\<newline>'' ''b'' []) sample_fs))
     ''/tmp/apkdebug1'' = Some Dir \<and>
   fs (snd (main (sample_env [''debugAPK'', ''app.apk''] ''2.5.0\<newline>'' ''b'' []) sample_fs))
     ''/tmp/apkdebug1/app'' = Some Dir"
  by (simp add: run_defs sample_defs actions_def addDebuggableFlag_content_def
      debuggable_pattern_def debugAPK_def Ext_def TrimSuffix_def suffix_to_prefix)

section \<open>A missing input file\<close>

text \<open>
  C5, as the program has it. The input path is tested on line 72, after the version
  check, the search for \<open>keytool\<close> and \<open>jarsigner\<close> and the creation of the workspace.
  When all of these pass and the input path is not there, \<open>main\<close> returns (exit status
  0); its last line of output is the not-found message; its only actions are the version
  query and the creation and removal of the workspace, so no stage runs and nothing is
  written; and the file system is as the version query left it, without the workspace.
\<close>

theorem missing_input_after_checks:
  assumes "Args e = prog # apk # rest"
    and "getInstalledVersion e ''apktool'' \<lparr>fs = fs0, trace = []\<rparr> =
           (Value (installedVersion, None), w1)"
    and "installedVersion = ''2.5.0'' \<or> fs w1 ''apktool_2.5.0.jar'' \<noteq> None"
    and "LookPath e ''keytool'' = None"
    and "LookPath e ''jarsigner'' = None"
    and "TempDir e = Inr tmpDir"
    and "((fs w1)(tmpDir \<mapsto> Dir)) apk = None"
  shows "fst (main e fs0) = Returned \<and> exit_status (fst (main e fs0)) = 0 \<and>
         last (filter is_output (trace (snd (main e fs0)))) =
           Println [''File not found: '', apk] \<and>
         actions (trace (snd (main e fs0))) =
           [Exec ''apktool'' [''--version''], MkTemp tmpDir, Remove tmpDir] \<and>
         fs (snd (main e fs0)) =
           (\<lambda>q. if q = tmpDir \<or> prefix (tmpDir @ ''/'') q then None else fs w1 q)"
proof -
  have w1: "w1 = \<lparr>fs = fs_after (run e ''apktool'' [''--version''] fs0),
                   trace = [Exec ''apktool'' [''--version'']]\<rparr>"
    using getInstalledVersion_world [OF assms(2)] by simp
  have pipe: "\<And>f a as w. fs w = (fs w1)(tmpDir \<mapsto> Dir) \<Longrightarrow>
      main_pipeline e f a as tmpDir apk w =
        (Returned, emit (Println [''File not found: '', apk]) w)"
    using assms(7) by (simp add: main_pipeline_def Stat_def)
  have ws: "\<And>f a as w. fs w = fs w1 \<Longrightarrow>
      main_workspace e f a as apk w =
        (Returned,
         RemoveAll tmpDir
           (emit (Println [''File not found: '', apk])
              (emit (MkTemp tmpDir) (w\<lparr>fs := (fs w)(tmpDir \<mapsto> Dir)\<rparr>))))"
    using assms(4,5,6) by (simp add: main_workspace_def pipe emit_def)
  show ?thesis
  proof (cases "installedVersion = ''2.5.0''")
    case True
    then have "main e fs0 =
        (Returned,
         RemoveAll tmpDir
           (emit (Println [''File not found: '', apk])
              (emit (MkTemp tmpDir) (w1\<lparr>fs := (fs w1)(tmpDir \<mapsto> Dir)\<rparr>))))"
      using assms(1,2) by (simp add: main_def requiredVersion_def ws)
    then show ?thesis
      by (simp add: w1 RemoveAll_def emit_def actions_def fun_eq_iff)
  next
    case False
    with assms(3) have jar: "fs w1 ''apktool_2.5.0.jar'' \<noteq> None"
      by simp
    then have st: "Stat (fs w1) apktoolJar = None"
      by (auto simp: Stat_def apktoolJar_def)
    have "main e fs0 =
        (Returned,
         RemoveAll tmpDir
           (emit (Println [''File not found: '', apk])
              (emit (MkTemp tmpDir)
                 ((emit (Println [''Found apktool_2.5.0.jar file in the current directory. Proceeding...'']) w1)
                    \<lparr>fs := (fs w1)(tmpDir \<mapsto> Dir)\<rparr>))))"
      using assms(1,2) False
      by (simp add: main_def requiredVersion_def st ws emit_def)
    then show ?thesis
      by (simp add: w1 RemoveAll_def emit_def actions_def fun_eq_iff)
  qed
qed

theorem missing_input_after_checks_witness:
  "fst (main (sample_env [''debugAPK'', ''gone.apk''] ''2.5.0\<newline>'' [] []) sample_fs) =
     Returned \<and>
   last (filter is_output
     (trace (snd (main (sample_env [''debugAPK'', ''gone.apk''] ''2.5.0\<newline>'' [] [])
                    sample_fs)))) = Println [''File not found: '', ''gone.apk''] \<and>
   actions (trace (snd (main (sample_env [''debugAPK'', ''gone.apk''] ''2.5.0\<newline>'' [] [])
                          sample_fs))) =
     [Exec ''apktool'' [''--version''], MkTemp ''/tmp/apkdebug1'', Remove ''/tmp/apkdebug1'']"
proof -
  have h1: "Args (sample_env [''debugAPK'', ''gone.apk''] ''2.5.0\<newline>'' [] []) =
              ''debugAPK'' # ''gone.apk'' # []"
    by (simp add: sample_env_def)
  have h2: "getInstalledVersion (sample_env [''debugAPK'', ''gone.apk''] ''2.5.0\<newline>'' [] [])
              ''apktool'' \<lparr>fs = sample_fs, trace = []\<rparr> =
            (Value (''2.5.0'', None),
             \<lparr>fs = sample_fs, trace = [Exec ''apktool'' [''--version'']]\<rparr>)"
    by (simp add: run_defs sample_defs)
  have h3: "''2.5.0'' = ''2.5.0'' \<or>
            fs \<lparr>fs = sample_fs, trace = [Exec ''apktool'' [''--version'']]\<rparr>
              ''apktool_2.5.0.jar'' \<noteq> None"
    by simp
  have h4: "LookPath (sample_env [''debugAPK'', ''gone.apk''] ''2.5.0\<newline>'' [] [])
              ''keytool'' = None"
    by (simp add: sample_env_def)
  have h5: "LookPath (sample_env [''debugAPK'', ''gone.apk''] ''2.5.0\<newline>'' [] [])
              ''jarsigner'' = None"
    by (simp add: sample_env_def)
  have h6: "TempDir (sample_env [''debugAPK'', ''gone.apk''] ''2.5.0\<newline>'' [] []) =
              Inr ''/tmp/apkdebug1''"
    by (simp add: sample_env_def)
  have h7: "((fs \<lparr>fs = sample_fs, trace = [Exec ''apktool'' [''--version'']]\<rparr>)
               (''/tmp/apkdebug1'' \<mapsto> Dir)) ''gone.apk'' = None"
    by (simp add: sample_fs_def)
  show ?thesis
    using missing_input_after_checks [OF h1 h2 h3 h4 h5 h6 h7] by simp
qed

text \<open>
  C5 as the specification states it (a missing input path alone gives the not-found
  message and a successful exit) fails when an earlier check fails: with no input file
  and no \<open>keytool\<close>, the run ends through \<open>log.Fatal\<close> with status 1 and never prints the
  not-found message.
\<close>

theorem missing_input_counterexample:
  "Map.empty ''gone.apk'' = (None :: node option) \<and>
   fst (main (sample_env [''debugAPK'', ''gone.apk''] ''2.5.0\<newline>'' [] ''keytool'') Map.empty) =
     Exited 1 \<and>
   trace (snd (main (sample_env [''debugAPK'', ''gone.apk''] ''2.5.0\<newline>'' [] ''keytool'')
                 Map.empty)) =
     [Exec ''apktool'' [''--version''],
      LogFatal [''I require keytool but it's not installed. Aborting.'']]"
  by (simp add: run_defs sample_defs)

section \<open>The debug flag\<close>

lemma replay_snoc: "replay e (tr @ [ev]) f0 = replay_event e ev (replay e tr f0)"
  by (simp add: replay_def)

lemma sound_emit:
  "is_output ev \<Longrightarrow> \<not> diagnostic ev \<Longrightarrow> sound e f0 w \<Longrightarrow> sound e f0 (emit ev w)"
  by (cases ev) (simp_all add: sound_def emit_def replay_snoc)

lemma sound_launch: "sound e f0 w \<Longrightarrow> sound e f0 (snd (launch e name args w))"
  by (simp add: sound_def launch_def emit_def replay_snoc Let_def)

lemma sound_mkdir:
  "sound e f0 w \<Longrightarrow> sound e f0 (emit (MkTemp d) (w\<lparr>fs := (fs w)(d \<mapsto> Dir)\<rparr>))"
  by (simp add: sound_def emit_def replay_snoc)

lemma sound_RemoveAll: "sound e f0 w \<Longrightarrow> sound e f0 (RemoveAll p w)"
  by (auto simp: sound_def RemoveAll_def emit_def replay_snoc)

lemma sound_WriteFile: "sound e f0 w \<Longrightarrow> sound e f0 (snd (WriteFile e p data w))"
  by (simp add: sound_def WriteFile_def emit_def replay_snoc split: option.split)

lemma sound_addDebuggableFlag:
  "sound e f0 w \<Longrightarrow> sound e f0 (snd (addDebuggableFlag e path w))"
proof -
  assume s: "sound e f0 w"
  have id: "\<And>r :: error option \<times> world.
              (case r of (Some er, w1) \<Rightarrow> (Some er, w1) | (None, w1) \<Rightarrow> (None, w1)) = r"
    by (simp split: prod.split option.split)
  show ?thesis
    using s unfolding addDebuggableFlag_def id
    by (cases "ReadFile (fs w) path") (simp_all add: sound_WriteFile)
qed

lemma sound_fold_lines:
  "sound e f0 w \<Longrightarrow> sound e f0 (fold (\<lambda>line. emit (Println [line])) ls w)"
  by (induction ls arbitrary: w) (simp_all add: sound_emit)

lemma sound_verifyAPK: "sound e f0 w \<Longrightarrow> sound e f0 (snd (verifyAPK e apk w))"
proof -
  assume s: "sound e f0 w"
  obtain p w1 where l: "launch e ''jarsigner'' [''-verify'', apk] w = (p, w1)"
    by (cases "launch e ''jarsigner'' [''-verify'', apk] w")
  from sound_launch [OF s, of "''jarsigner''" "[''-verify'', apk]"] l have "sound e f0 w1"
    by simp
  with l show ?thesis
    by (cases "exit_err p") (simp_all add: verifyAPK_def sound_fold_lines)
qed

lemma paired_pair: "sound e f0 w \<Longrightarrow> paired e f0 (h, w) (h, w)"
  by (simp add: paired_def)

lemma paired_if:
  "(c \<Longrightarrow> paired e f0 a a') \<Longrightarrow> (\<not> c \<Longrightarrow> paired e f0 b b') \<Longrightarrow>
     paired e f0 (if c then a else b) (if c then a' else b')"
  by simp

text \<open>
  A stage that does not look at the flag: the two runs fail alike, or both go on from
  the same world.
\<close>

lemma orFatal_paired:
  assumes "sound e f0 (snd r)"
    and "\<And>w1. sound e f0 w1 \<Longrightarrow> paired e f0 (kd w1) (kp w1)"
  shows "paired e f0 (orFatal msg r kd) (orFatal msg r kp)"
proof (cases r)
  case (Pair er w)
  with assms(1) have s: "sound e f0 w"
    by simp
  show ?thesis
  proof (cases er)
    case None
    with Pair assms(2) [OF s] show ?thesis
      by (simp add: orFatal_def)
  next
    case (Some x)
    have "sound e f0 (emit (LogFatal [msg, x]) w)"
      using s by (intro sound_emit) simp_all
    with Some Pair show ?thesis
      by (simp add: orFatal_def paired_def)
  qed
qed

text \<open>
  A stage run through \<open>processCMD\<close>: when the command succeeds both runs go on from the
  same world; when it fails they part, the run with the flag printing what the
  process wrote before both log the fatal message.
\<close>

lemma orFatal_processCMD_paired:
  assumes "sound e f0 w"
    and "\<And>w1. sound e f0 w1 \<Longrightarrow> paired e f0 (kd w1) (kp w1)"
  shows "paired e f0 (orFatal msg (processCMD e name args True w) kd)
                     (orFatal msg (processCMD e name args False w) kp)"
proof -
  let ?p = "run e name args (fs w)"
  let ?w1 = "\<lparr>fs = fs_after ?p, trace = trace w @ [Exec name args]\<rparr>"
  have l: "launch e name args w = (?p, ?w1)"
    by (rule launch_world)
  have fsw: "fs w = replay e (trace w) f0" and clean: "\<forall>ev \<in> set (trace w). \<not> diagnostic ev"
    using assms(1) by (simp_all add: sound_def)
  show ?thesis
  proof (cases "exit_err ?p")
    case None
    have "sound e f0 ?w1"
      using sound_launch [OF assms(1), of name args] l by simp
    then have "paired e f0 (kd ?w1) (kp ?w1)"
      by (rule assms(2))
    with None l show ?thesis
      by (simp add: processCMD_def orFatal_def)
  next
    case (Some er)
    have d: "orFatal msg (processCMD e name args True w) kd =
             (Exited 1,
              \<lparr>fs = fs_after ?p,
               trace = trace w @ [Exec name args] @ diagnostics ?p @ [LogFatal [msg, er]]\<rparr>)"
      using Some l by (simp add: processCMD_def orFatal_def emit_def diagnostics_def)
    have p: "orFatal msg (processCMD e name args False w) kp =
             (Exited 1,
              \<lparr>fs = fs_after ?p, trace = trace w @ [Exec name args, LogFatal [msg, er]]\<rparr>)"
      using Some l by (simp add: processCMD_def orFatal_def emit_def)
    have "parted e f0
            (Exited 1,
              \<lparr>fs = fs_after ?p,
               trace = trace w @ [Exec name args] @ diagnostics ?p @ [LogFatal [msg, er]]\<rparr>)
            (Exited 1,
              \<lparr>fs = fs_after ?p, trace = trace w @ [Exec name args, LogFatal [msg, er]]\<rparr>)"
      unfolding parted_def fsw
      using Some clean
      by (intro exI [of _ "trace w"] exI [of _ name] exI [of _ args] exI [of _ msg]
            exI [of _ er]) (simp add: fsw [symmetric])
    then show ?thesis
      by (simp only: d p paired_def simp_thms)
  qed
qed

lemma orFatal_generateKeyStore_paired:
  assumes "sound e f0 w"
    and "\<And>w1. sound e f0 w1 \<Longrightarrow> paired e f0 (kd w1) (kp w1)"
  shows "paired e f0 (orFatal msg (generateKeyStore e path True w) kd)
                     (orFatal msg (generateKeyStore e path False w) kp)"
proof -
  have id: "\<And>r :: error option \<times> world.
              (case r of (Some er, w1) \<Rightarrow> (Some er, w1) | (None, w1) \<Rightarrow> (None, w1)) = r"
    by (simp split: prod.split option.split)
  show ?thesis
    unfolding generateKeyStore_def id
    using assms by (rule orFatal_processCMD_paired)
qed

lemma main_pipeline_paired:
  assumes "sound e f0 w"
  shows "paired e f0 (main_pipeline e True apktool apktoolArgs tmpDir apk w)
                     (main_pipeline e False apktool apktoolArgs tmpDir apk w)"
  unfolding main_pipeline_def
  by (intro paired_if orFatal_processCMD_paired orFatal_generateKeyStore_paired
        orFatal_paired paired_pair sound_addDebuggableFlag sound_verifyAPK sound_emit assms)
     simp_all


text \<open>
  The deferred removal of the workspace: it follows a result that is not an exit, so
  results that have parted at a fatal exit stay as they are.
\<close>

lemma deferred_paired:
  assumes "paired e f0 rd rp"
  shows "paired e f0
           (case rd of (Exited n, w1) \<Rightarrow> (Exited n, w1) | (h, w1) \<Rightarrow> (h, RemoveAll d w1))
           (case rp of (Exited n, w1) \<Rightarrow> (Exited n, w1) | (h, w1) \<Rightarrow> (h, RemoveAll d w1))"
proof (cases "parted e f0 rd rp")
  case True
  then obtain wd wp where "rd = (Exited 1, wd)" and "rp = (Exited 1, wp)"
    by (auto simp: parted_def)
  with True show ?thesis
    by (simp add: paired_def)
next
  case False
  with assms have same: "rd = rp" and s: "sound e f0 (snd rp)"
    by (simp_all add: paired_def)
  obtain h w1 where rp: "rp = (h, w1)"
    by (cases rp)
  with s have "sound e f0 w1" and "sound e f0 (RemoveAll d w1)"
    by (simp_all add: sound_RemoveAll)
  with same rp show ?thesis
    by (cases h) (simp_all add: paired_def)
qed

lemma main_workspace_paired:
  assumes "sound e f0 w"
  shows "paired e f0 (main_workspace e True apktool apktoolArgs apk w)
                     (main_workspace e False apktool apktoolArgs apk w)"
proof (cases "TempDir e")
  case (Inl er)
  show ?thesis
    unfolding main_workspace_def Inl sum.case
    by (intro paired_if paired_pair sound_emit assms) simp_all
next
  case (Inr tmpDir)
  have "sound e f0 (emit (MkTemp tmpDir) (w\<lparr>fs := (fs w)(tmpDir \<mapsto> Dir)\<rparr>))"
    using assms by (rule sound_mkdir)
  then have "paired e f0
     (main_pipeline e True apktool apktoolArgs tmpDir apk
        (emit (MkTemp tmpDir) (w\<lparr>fs := (fs w)(tmpDir \<mapsto> Dir)\<rparr>)))
     (main_pipeline e False apktool apktoolArgs tmpDir apk
        (emit (MkTemp tmpDir) (w\<lparr>fs := (fs w)(tmpDir \<mapsto> Dir)\<rparr>)))"
    by (rule main_pipeline_paired)
  then have body: "paired e f0
     (case main_pipeline e True apktool apktoolArgs tmpDir apk
             (emit (MkTemp tmpDir) (w\<lparr>fs := (fs w)(tmpDir \<mapsto> Dir)\<rparr>)) of
        (Exited n, w1) \<Rightarrow> (Exited n, w1) | (h, w1) \<Rightarrow> (h, RemoveAll tmpDir w1))
     (case main_pipeline e False apktool apktoolArgs tmpDir apk
             (emit (MkTemp tmpDir) (w\<lparr>fs := (fs w)(tmpDir \<mapsto> Dir)\<rparr>)) of
        (Exited n, w1) \<Rightarrow> (Exited n, w1) | (h, w1) \<Rightarrow> (h, RemoveAll tmpDir w1))"
    by (rule deferred_paired)
  show ?thesis
    unfolding main_workspace_def Inr sum.case
    by (intro paired_if paired_pair sound_emit assms body) simp_all
qed

text \<open>The parts of \<open>main\<close> that do not read the arguments.\<close>

lemma getInstalledVersion_env:
  "run e' = run e \<Longrightarrow> getInstalledVersion e' apktool w = getInstalledVersion e apktool w"
  by (simp add: getInstalledVersion_def launch_def)

lemma main_pipeline_env:
  assumes "run e' = run e" and "write_fault e' = write_fault e"
  shows "main_pipeline e' flag apktool apktoolArgs tmpDir apk w =
         main_pipeline e flag apktool apktoolArgs tmpDir apk w"
proof -
  have 1: "\<And>name args f w. processCMD e' name args f w = processCMD e name args f w"
    by (simp add: processCMD_def launch_def assms(1))
  have 2: "\<And>path f w. generateKeyStore e' path f w = generateKeyStore e path f w"
    by (simp add: generateKeyStore_def 1)
  have 3: "\<And>path w. verifyAPK e' path w = verifyAPK e path w"
    by (simp add: verifyAPK_def launch_def assms(1))
  have wf: "\<And>path data w. WriteFile e' path data w = WriteFile e path data w"
    by (simp add: WriteFile_def assms(2))
  have 4: "\<And>path w. addDebuggableFlag e' path w = addDebuggableFlag e path w"
    unfolding addDebuggableFlag_def wf by (rule refl)
  show ?thesis
    unfolding main_pipeline_def 1 2 3 4 by (rule refl)
qed

lemma main_workspace_env:
  assumes "run e' = run e" and "write_fault e' = write_fault e"
    and "LookPath e' = LookPath e" and "TempDir e' = TempDir e"
  shows "main_workspace e' flag apktool apktoolArgs apk w =
         main_workspace e flag apktool apktoolArgs apk w"
  unfolding main_workspace_def main_pipeline_env [OF assms(1,2)] assms(3,4) by (rule refl)

lemma diagnostic_is_output: "diagnostic ev \<Longrightarrow> is_output ev"
  by (cases ev) simp_all

lemma actions_mute: "actions (mute tr) = actions tr"
  by (induction tr) (auto simp: actions_def mute_def dest: diagnostic_is_output)

lemma mute_clean: "\<forall>ev \<in> set tr. \<not> diagnostic ev \<Longrightarrow> mute tr = tr"
  by (simp add: mute_def)

lemma main_paired:
  assumes "Args e = prog # apk # ''debug'' # r"
    and "Args e' = prog # apk # r'"
    and "r' = [] \<or> hd r' \<noteq> ''debug''"
    and "run e' = run e" and "write_fault e' = write_fault e"
    and "LookPath e' = LookPath e" and "TempDir e' = TempDir e"
  shows "paired e fs0 (main e fs0) (main e' fs0)"
proof -
  have flag': "(case r' of [] \<Rightarrow> False | a # _ \<Rightarrow> a = ''debug'') = False"
    using assms(3) by (cases r') simp_all
  note ws' = main_workspace_env [OF assms(4,5,6,7)]
  obtain g w1 where gv: "getInstalledVersion e ''apktool'' \<lparr>fs = fs0, trace = []\<rparr> = (g, w1)"
    by (cases "getInstalledVersion e ''apktool'' \<lparr>fs = fs0, trace = []\<rparr>")
  then have gv': "getInstalledVersion e' ''apktool'' \<lparr>fs = fs0, trace = []\<rparr> = (g, w1)"
    by (simp add: getInstalledVersion_env [OF assms(4)])
  have "w1 = \<lparr>fs = fs_after (run e ''apktool'' [''--version''] fs0),
               trace = [Exec ''apktool'' [''--version'']]\<rparr>"
    using getInstalledVersion_world [OF gv] by simp
  then have s: "sound e fs0 w1"
    by (simp add: sound_def replay_def)
  note ws = main_workspace_paired [OF _, of e fs0]
  show ?thesis
  proof (cases g)
    case Panic
    with gv gv' assms(1,2) s show ?thesis
      by (simp add: main_def paired_def)
  next
    case (Value v)
    obtain installedVersion err where v: "v = (installedVersion, err)"
      by (cases v)
    show ?thesis
    proof (cases err)
      case (Some er)
      have "sound e fs0 (emit (LogFatal [''Failed to check installed apktool version: '', er]) w1)"
        using s by (intro sound_emit) simp_all
      with Some Value v gv gv' assms(1,2) show ?thesis
        by (simp add: main_def paired_def)
    next
      case None
      have "paired e fs0
              (if installedVersion \<noteq> requiredVersion then
                 if Stat (fs w1) apktoolJar = None then
                   main_workspace e True ''java'' ([] @ [''-jar'', apktoolJar]) apk
                     (emit (Println [''Found apktool_2.5.0.jar file in the current directory. Proceeding...'']) w1)
                 else (Returned, emit (Printf (mismatch_message installedVersion)) w1)
               else main_workspace e True ''apktool'' [] apk w1)
              (if installedVersion \<noteq> requiredVersion then
                 if Stat (fs w1) apktoolJar = None then
                   main_workspace e' False ''java'' ([] @ [''-jar'', apktoolJar]) apk
                     (emit (Println [''Found apktool_2.5.0.jar file in the current directory. Proceeding...'']) w1)
                 else (Returned, emit (Printf (mismatch_message installedVersion)) w1)
               else main_workspace e' False ''apktool'' [] apk w1)"
        unfolding ws'
        by (intro paired_if ws paired_pair sound_emit s) simp_all
      with None Value v gv gv' assms(1,2) flag' show ?thesis
        by (simp add: main_def)
    qed
  qed
qed

text \<open>
  C8. Two runs in the same environment, one with \<open>debug\<close> as its second argument and one
  without. They end the same way and leave the same file system; the trace of the run
  without the flag is the trace of the run with it minus the diagnostic lines, so both
  perform the same actions in the same order. And the flag changes nothing else: either
  the two runs are the same, with no diagnostic line at all, or a command run through
  \<open>processCMD\<close> has failed and the run exits with status 1; then the two traces are the
  same up to the launch of that command, the run with the flag prints exactly two lines
  after it, the captured standard output and the captured standard error of that
  process, and both runs end with the same fatal message.
\<close>

theorem debug_flag_only_adds_diagnostics:
  assumes "Args e = prog # apk # ''debug'' # r"
    and "Args e' = prog # apk # r'"
    and "r' = [] \<or> hd r' \<noteq> ''debug''"
    and "run e' = run e" and "write_fault e' = write_fault e"
    and "LookPath e' = LookPath e" and "TempDir e' = TempDir e"
  shows "fst (main e' fs0) = fst (main e fs0) \<and>
         fs (snd (main e' fs0)) = fs (snd (main e fs0)) \<and>
         trace (snd (main e' fs0)) = mute (trace (snd (main e fs0))) \<and>
         actions (trace (snd (main e' fs0))) = actions (trace (snd (main e fs0))) \<and>
         (main e fs0 = main e' fs0 \<and>
            (\<forall>ev \<in> set (trace (snd (main e fs0))). \<not> diagnostic ev) \<or>
          (\<exists>pre name args msg er.
             exit_err (run e name args (replay e pre fs0)) = Some er \<and>
             (\<forall>ev \<in> set pre. \<not> diagnostic ev) \<and>
             fst (main e fs0) = Exited 1 \<and>
             trace (snd (main e' fs0)) = pre @ [Exec name args, LogFatal [msg, er]] \<and>
             trace (snd (main e fs0)) =
               pre @ [Exec name args,
                      Println [''Command output:\<newline>'',
                               stdout (run e name args (replay e pre fs0))],
                      Println [''Command error:\<newline>'',
                               stderr (run e name args (replay e pre fs0))],
                      LogFatal [msg, er]]))"
proof (cases "parted e fs0 (main e fs0) (main e' fs0)")
  case True
  then obtain pre name args msg er where
    er: "exit_err (run e name args (replay e pre fs0)) = Some er"
    and clean: "\<forall>ev \<in> set pre. \<not> diagnostic ev"
    and rp: "main e' fs0 =
               (Exited 1,
                \<lparr>fs = fs_after (run e name args (replay e pre fs0)),
                 trace = pre @ [Exec name args, LogFatal [msg, er]]\<rparr>)"
    and rd: "main e fs0 =
               (Exited 1,
                \<lparr>fs = fs_after (run e name args (replay e pre fs0)),
                 trace = pre @ [Exec name args] @
                         diagnostics (run e name args (replay e pre fs0)) @
                         [LogFatal [msg, er]]\<rparr>)"
    unfolding parted_def by blast
  have m: "mute (pre @ Exec name args # diagnostics (run e name args (replay e pre fs0)) @
                 [LogFatal [msg, er]]) = pre @ [Exec name args, LogFatal [msg, er]]"
  proof -
    have "filter (\<lambda>ev. \<not> diagnostic ev) pre = pre"
      using clean by simp
    then show ?thesis
      by (simp add: mute_def diagnostics_def)
  qed
  have tr: "trace (snd (main e' fs0)) = mute (trace (snd (main e fs0)))"
    by (simp add: rp rd m)
  have "\<exists>pre name args msg er.
             exit_err (run e name args (replay e pre fs0)) = Some er \<and>
             (\<forall>ev \<in> set pre. \<not> diagnostic ev) \<and>
             fst (main e fs0) = Exited 1 \<and>
             trace (snd (main e' fs0)) = pre @ [Exec name args, LogFatal [msg, er]] \<and>
             trace (snd (main e fs0)) =
               pre @ [Exec name args,
                      Println [''Command output:\<newline>'',
                               stdout (run e name args (replay e pre fs0))],
                      Println [''Command error:\<newline>'',
                               stderr (run e name args (replay e pre fs0))],
                      LogFatal [msg, er]]"
    using er clean
    by (intro exI [of _ pre] exI [of _ name] exI [of _ args] exI [of _ msg] exI [of _ er])
       (simp add: rp rd diagnostics_def)
  moreover have "fst (main e' fs0) = fst (main e fs0)"
    and "fs (snd (main e' fs0)) = fs (snd (main e fs0))"
    by (simp_all add: rp rd)
  moreover have "actions (trace (snd (main e' fs0))) = actions (trace (snd (main e fs0)))"
    by (simp only: tr actions_mute)
  ultimately show ?thesis
    using tr by (simp only: simp_thms)
next
  case False
  with main_paired [OF assms, of fs0]
  have same: "main e fs0 = main e' fs0" and s: "sound e fs0 (snd (main e' fs0))"
    by (simp_all add: paired_def)
  from s have clean: "\<forall>ev \<in> set (trace (snd (main e fs0))). \<not> diagnostic ev"
    by (simp add: same sound_def)
  then have "mute (trace (snd (main e fs0))) = trace (snd (main e fs0))"
    by (rule mute_clean)
  with same clean show ?thesis
    by simp
qed

theorem debug_flag_only_adds_diagnostics_witness:
  "fst (main (sample_env [''debugAPK'', ''app.apk''] ''2.5.0\<newline>'' ''b'' []) sample_fs) =
     fst (main (sample_env [''debugAPK'', ''app.apk'', ''debug''] ''2.5.0\<newline>'' ''b'' [])
            sample_fs) \<and>
   trace (snd (main (sample_env [''debugAPK'', ''app.apk''] ''2.5.0\<newline>'' ''b'' [])
                 sample_fs)) =
     mute (trace (snd (main (sample_env [''debugAPK'', ''app.apk'', ''debug'']
                               ''2.5.0\<newline>'' ''b'' []) sample_fs))) \<and>
   trace (snd (main (sample_env [''debugAPK'', ''app.apk'', ''debug''] ''2.5.0\<newline>'' ''b'' [])
                 sample_fs)) =
     [Exec ''apktool'' [''--version''],
      MkTemp ''/tmp/apkdebug1'',
      Println [''=> Unpacking APK...''],
      Exec ''apktool'' [''-q'', ''d'', ''app.apk'', ''-o'', ''/tmp/apkdebug1/app''],
      Println [''=> Adding debug flag...''],
      Write ''/tmp/apkdebug1/app/AndroidManifest.xml''
        ''<manifest><application android:debuggable=\"true\" android:label=\"a\"></application></manifest>'',
      Println [''=> Repacking APK...''],
      Exec ''apktool''
        [''-q'', ''b'', ''/tmp/apkdebug1/app'', ''--use-aapt2'', ''-o'', ''app.debug.apk''],
      Println [''Command output:\<newline>'', ''I: Using Apktool 2.5.0''],
      Println [''Command error:\<newline>'', ''brut.androlib.AndrolibException''],
      LogFatal [''Failed to repackage APK:'', ''exit status 1'']]"
proof -
  let ?e = "sample_env [''debugAPK'', ''app.apk'', ''debug''] ''2.5.0\<newline>'' ''b'' []"
  let ?e' = "sample_env [''debugAPK'', ''app.apk''] ''2.5.0\<newline>'' ''b'' []"
  have h1: "Args ?e = ''debugAPK'' # ''app.apk'' # ''debug'' # []"
    by (simp add: sample_env_def)
  have h2: "Args ?e' = ''debugAPK'' # ''app.apk'' # []"
    by (simp add: sample_env_def)
  have h3: "([] :: string list) = [] \<or> hd ([] :: string list) \<noteq> ''debug''"
    by simp
  have h4: "run ?e' = run ?e"
    by (simp add: sample_env_def)
  have h5: "write_fault ?e' = write_fault ?e"
    by (simp add: sample_env_def)
  have h6: "LookPath ?e' = LookPath ?e"
    by (simp add: sample_env_def)
  have h7: "TempDir ?e' = TempDir ?e"
    by (simp add: sample_env_def)
  note t = debug_flag_only_adds_diagnostics [OF h1 h2 h3 h4 h5 h6 h7, of sample_fs]
  have a: "fst (main ?e' sample_fs) = fst (main ?e sample_fs)"
    using t by (rule conjunct1)
  have b: "trace (snd (main ?e' sample_fs)) = mute (trace (snd (main ?e sample_fs)))"
    using t [THEN conjunct2, THEN conjunct2] by (rule conjunct1)
  have d: "trace (snd (main ?e sample_fs)) =
     [Exec ''apktool'' [''--version''],
      MkTemp ''/tmp/apkdebug1'',
      Println [''=> Unpacking APK...''],
      Exec ''apktool'' [''-q'', ''d'', ''app.apk'', ''-o'', ''/tmp/apkdebug1/app''],
      Println [''=> Adding debug flag...''],
      Write ''/tmp/apkdebug1/app/AndroidManifest.xml''
        ''<manifest><application android:debuggable=\"true\" android:label=\"a\"></application></manifest>'',
      Println [''=> Repacking APK...''],
      Exec ''apktool''
        [''-q'', ''b'', ''/tmp/apkdebug1/app'', ''--use-aapt2'', ''-o'', ''app.debug.apk''],
      Println [''Command output:\<newline>'', ''I: Using Apktool 2.5.0''],
      Println [''Command error:\<newline>'', ''brut.androlib.AndrolibException''],
      LogFatal [''Failed to repackage APK:'', ''exit status 1'']]"
    by (simp add: run_defs sample_defs addDebuggableFlag_content_def
      debuggable_pattern_def debugAPK_def Ext_def TrimSuffix_def suffix_to_prefix)
  from a b d show ?thesis
    by (intro conjI)
qed

end
